theory Spec2Isabelle
  imports Main
begin

chapter \<open>Hyperforge: tool adapters, search backend and terminal chat client\<close>

text \<open>
  A shallow embedding of the Python sources
  \<^verbatim>\<open>custom_files/apply_patch_tool.py\<close>, \<^verbatim>\<open>custom_files/google_backend.py\<close> and
  \<^verbatim>\<open>gpt-oss-chat.py\<close>, followed by a model of the patch application engine that the
  adapter calls. Python values are a datatype, exceptions are values of a sum type,
  generators are the list of what they yield, and calls into collaborators that are
  not part of the sources (the JSON decoder, the patch engine, the HTTP session) are
  function parameters.
\<close>

section \<open>Python values and exceptions\<close>

text \<open>
  Strings are byte lists: \<^verbatim>\<open>str.startswith\<close>, concatenation and equality are the
  operations the sources use on them. A dictionary keeps its insertion order, which
  \<^verbatim>\<open>dict.popitem\<close> reads, so it is an association list. A finite float is
  \<open>m * 2 ^ e\<close>, kept as the pair \<open>m\<close>, \<open>e\<close>.
\<close>

datatype pyval =
    PNone
  | PBool bool
  | PInt int
  | PFloat int int
  | PStr string
  | PList "pyval list"
  | PDict "(string \<times> pyval) list"

text \<open>
  A raised exception carries its class name and the text \<^verbatim>\<open>str(e)\<close> that an f-string
  prints. \<^verbatim>\<open>except Exception\<close> catches the subclasses of \<^verbatim>\<open>Exception\<close> only;
  \<^verbatim>\<open>KeyboardInterrupt\<close>, \<^verbatim>\<open>SystemExit\<close> and \<^verbatim>\<open>GeneratorExit\<close> derive from
  \<^verbatim>\<open>BaseException\<close> directly and pass through such a handler.
\<close>

datatype pyexc =
    Exception string string
  | BaseException string string

fun is_Exception :: "pyexc \<Rightarrow> bool" where
  "is_Exception (Exception c s) = True"
| "is_Exception (BaseException c s) = False"

fun str_exc :: "pyexc \<Rightarrow> string" where
  "str_exc (Exception c s) = s"
| "str_exc (BaseException c s) = s"

definition startswith :: "string \<Rightarrow> string \<Rightarrow> bool" where
  "startswith s p = (take (length p) s = p)"

text \<open>A text between single quotes, as \<^verbatim>\<open>repr\<close> prints a short string.\<close>

definition squote :: "string \<Rightarrow> string" where
  "squote s = CHR 0x27 # s @ [CHR 0x27]"

text \<open>\<^verbatim>\<open>bool(x)\<close> of an optional string: \<^verbatim>\<open>None\<close> and \<^verbatim>\<open>""\<close> are false.\<close>

fun truthy_str :: "string option \<Rightarrow> bool" where
  "truthy_str None = False"
| "truthy_str (Some s) = (s \<noteq> [])"

section \<open>The apply-patch tool adapter (apply\_patch\_tool.py)\<close>

subsection \<open>Messages\<close>

datatype role = USER | ASSISTANT | SYSTEM | DEVELOPER | TOOL

record author =
  author_role :: role
  author_name :: "string option"

text \<open>
  Only \<^verbatim>\<open>TextContent\<close> has a \<^verbatim>\<open>text\<close> attribute; reading it from any other kind
  of content raises \<^verbatim>\<open>AttributeError\<close>.
\<close>

datatype content = TextContent string | OtherContent

record message =
  msg_author :: author
  msg_content :: "content list"
  msg_recipient :: "string option"
  msg_channel :: "string option"

definition get_tool_name :: string where
  "get_tool_name = ''apply_patch''"

text \<open>
  \<^verbatim>\<open>make_response\<close> (lines 65-83): the author is the tool under the class's tool name,
  the recipient is the assistant, and the channel is set only when it is truthy.
\<close>

definition make_response :: "content \<Rightarrow> string option \<Rightarrow> message" where
  "make_response c channel =
     \<lparr> msg_author = \<lparr> author_role = TOOL, author_name = Some get_tool_name \<rparr>,
       msg_content = [c],
       msg_recipient = Some ''assistant'',
       msg_channel = (if truthy_str channel then channel else None) \<rparr>"

text \<open>\<^verbatim>\<open>_make_response\<close> (lines 56-63).\<close>

definition priv_make_response :: "string \<Rightarrow> string option \<Rightarrow> message" where
  "priv_make_response output channel = make_response (TextContent output) channel"

subsection \<open>Running the generator\<close>

text \<open>
  One run of the async generator \<^verbatim>\<open>_process\<close> is recorded as the arguments the patch
  engine was called with, the messages yielded, and the exception that left the
  generator, if any.
\<close>

record process_run =
  engine_calls :: "pyval list"
  yielded :: "message list"
  raised :: "pyexc option"

definition yield_only :: "message \<Rightarrow> process_run" where
  "yield_only m = \<lparr> engine_calls = [], yielded = [m], raised = None \<rparr>"

definition raise_only :: "pyexc \<Rightarrow> process_run" where
  "raise_only e = \<lparr> engine_calls = [], yielded = [], raised = Some e \<rparr>"

text \<open>\<^verbatim>\<open>message.content[0].text\<close> (line 87), outside every handler.\<close>

fun first_text :: "content list \<Rightarrow> pyexc + string" where
  "first_text [] = Inl (Exception ''IndexError'' ''list index out of range'')"
| "first_text (TextContent t # cs) = Inr t"
| "first_text (OtherContent # cs) =
     Inl (Exception ''AttributeError'' (''object has no attribute '' @ squote ''text''))"

text \<open>
  \<^verbatim>\<open>_, patch_text = some_dict.popitem()\<close> (line 95): the last inserted pair of a
  dictionary; \<^verbatim>\<open>KeyError\<close> on an empty one, whose \<^verbatim>\<open>str\<close> is the quoted message.
\<close>

fun popitem :: "pyval \<Rightarrow> pyexc + (string \<times> pyval)" where
  "popitem (PDict []) = Inl (Exception ''KeyError'' (squote ''popitem(): dictionary is empty''))"
| "popitem (PDict (kv # kvs)) = Inr (last (kv # kvs))"
| "popitem v = Inl (Exception ''AttributeError'' (''object has no attribute '' @ squote ''popitem''))"

text \<open>
  Lines 101-107: the engine is called inside \<^verbatim>\<open>try ... except Exception\<close>. Its summary
  is yielded as it is; an \<^verbatim>\<open>Exception\<close> becomes an error text; anything else leaves
  the generator.
\<close>

definition apply_stage ::
  "(pyval \<Rightarrow> pyexc + string) \<Rightarrow> pyval \<Rightarrow> string option \<Rightarrow> process_run" where
  "apply_stage apply_patch patch_text channel =
     (case apply_patch patch_text of
        Inr result \<Rightarrow>
          \<lparr> engine_calls = [patch_text],
            yielded = [priv_make_response result channel],
            raised = None \<rparr>
      | Inl e \<Rightarrow>
          if is_Exception e then
            \<lparr> engine_calls = [patch_text],
              yielded = [priv_make_response (''Error applying patch: '' @ str_exc e) channel],
              raised = None \<rparr>
          else
            \<lparr> engine_calls = [patch_text], yielded = [], raised = Some e \<rparr>)"

text \<open>Lines 93-99: what the \<^verbatim>\<open>except Exception\<close> around the unwrapping does.\<close>

definition json_error :: "pyexc \<Rightarrow> string option \<Rightarrow> process_run" where
  "json_error e channel =
     (if is_Exception e
      then yield_only (priv_make_response (''Error parsing JSON: '' @ str_exc e) channel)
      else raise_only e)"

text \<open>
  \<^verbatim>\<open>_process\<close> (lines 85-107). \<open>json_loads\<close> is \<^verbatim>\<open>json.loads\<close> and \<open>apply_patch\<close> is
  \<^verbatim>\<open>apply_patch.apply_patch\<close>, whose result is annotated \<^verbatim>\<open>str\<close>.
\<close>

definition priv_process ::
  "(string \<Rightarrow> pyexc + pyval) \<Rightarrow> (pyval \<Rightarrow> pyexc + string) \<Rightarrow> message \<Rightarrow> process_run" where
  "priv_process json_loads apply_patch message =
     (case first_text (msg_content message) of
        Inl e \<Rightarrow> raise_only e
      | Inr patch_text \<Rightarrow>
          let channel = msg_channel message in
          if startswith patch_text ''{'' then
            (case json_loads patch_text of
               Inl e \<Rightarrow> json_error e channel
             | Inr some_dict \<Rightarrow>
                 (case popitem some_dict of
                    Inl e \<Rightarrow> json_error e channel
                  | Inr (k, v) \<Rightarrow> apply_stage apply_patch v channel))
          else apply_stage apply_patch (PStr patch_text) channel)"

section \<open>The Google Custom Search backend (google\_backend.py)\<close>

subsection \<open>Strings and dictionaries of the Python runtime\<close>

definition digit_char :: "nat \<Rightarrow> char" where
  "digit_char d = char_of (48 + d)"

function str_nat :: "nat \<Rightarrow> string" where
  "str_nat n = (if n < 10 then [digit_char n] else str_nat (n div 10) @ [digit_char (n mod 10)])"
  by pat_completeness auto
termination
  by (relation "measure id") auto

text \<open>\<^verbatim>\<open>str(i)\<close> of an integer, as an f-string prints it.\<close>

definition str_int :: "int \<Rightarrow> string" where
  "str_int i = (if i < 0 then CHR ''-'' # str_nat (nat (- i)) else str_nat (nat i))"

text \<open>\<^verbatim>\<open>sep.join(xs)\<close>.\<close>

fun join :: "string \<Rightarrow> string list \<Rightarrow> string" where
  "join sep [] = []"
| "join sep [x] = x"
| "join sep (x # y # ys) = x @ sep @ join sep (y # ys)"

text \<open>\<^verbatim>\<open>p in s\<close> on strings: \<open>p\<close> occurs in \<open>s\<close> as a contiguous run.\<close>

definition contains_sub :: "string \<Rightarrow> string \<Rightarrow> bool" where
  "contains_sub s p = list_ex (\<lambda>i. startswith (drop i s) p) [0 ..< Suc (length s)]"

text \<open>\<^verbatim>\<open>d.get(k, default)\<close> on a dictionary read as an association list.\<close>

definition dict_get :: "(string \<times> pyval) list \<Rightarrow> string \<Rightarrow> pyval \<Rightarrow> pyval" where
  "dict_get d k dflt = (case map_of d k of Some v \<Rightarrow> v | None \<Rightarrow> dflt)"

text \<open>
  \<^verbatim>\<open>x.get(k, default)\<close> on any value: only a dictionary has the method.
\<close>

fun py_get :: "pyval \<Rightarrow> string \<Rightarrow> pyval \<Rightarrow> pyexc + pyval" where
  "py_get (PDict d) k dflt = Inr (dict_get d k dflt)"
| "py_get v k dflt = Inl (Exception ''AttributeError'' (''object has no attribute '' @ squote ''get''))"

text \<open>
  \<^verbatim>\<open>for item in x\<close>: a list gives its elements, a dictionary its keys, a string its
  characters; nothing else can be iterated.
\<close>

fun py_iter :: "pyval \<Rightarrow> pyexc + pyval list" where
  "py_iter (PList xs) = Inr xs"
| "py_iter (PDict d) = Inr (map (\<lambda>kv. PStr (fst kv)) d)"
| "py_iter (PStr s) = Inr (map (\<lambda>c. PStr [c]) s)"
| "py_iter v = Inl (Exception ''TypeError'' ''object is not iterable'')"

text \<open>\<^verbatim>\<open>bool(x)\<close>.\<close>

fun py_truthy :: "pyval \<Rightarrow> bool" where
  "py_truthy PNone = False"
| "py_truthy (PBool b) = b"
| "py_truthy (PInt i) = (i \<noteq> 0)"
| "py_truthy (PFloat m e) = (m \<noteq> 0)"
| "py_truthy (PStr s) = (s \<noteq> [])"
| "py_truthy (PList xs) = (xs \<noteq> [])"
| "py_truthy (PDict d) = (d \<noteq> [])"

subsection \<open>Credentials from the environment\<close>

type_synonym environ = "string \<rightharpoonup> string"

definition BackendError :: "string \<Rightarrow> pyexc" where
  "BackendError m = Exception ''BackendError'' m"

text \<open>\<^verbatim>\<open>_get_api_key\<close> (lines 21-25) and \<^verbatim>\<open>_get_cx\<close> (lines 27-31).\<close>

definition get_api_key :: "environ \<Rightarrow> pyexc + string" where
  "get_api_key env =
     (case env ''GOOGLE_KEY'' of
        None \<Rightarrow> Inl (BackendError ''Google API key not provided'')
      | Some key \<Rightarrow>
          if key = [] then Inl (BackendError ''Google API key not provided'') else Inr key)"

definition get_cx :: "environ \<Rightarrow> pyexc + string" where
  "get_cx env =
     (case env ''GOOGLE_CX'' of
        None \<Rightarrow> Inl (BackendError ''Google Custom Search Engine ID not provided'')
      | Some cx \<Rightarrow>
          if cx = [] then Inl (BackendError ''Google Custom Search Engine ID not provided'')
          else Inr cx)"

subsection \<open>The search request\<close>

record http_response =
  resp_status :: int
  resp_text :: string
  resp_json :: "pyexc + pyval"

type_synonym query_params = "(string \<times> pyval) list"

text \<open>
  A run of \<^verbatim>\<open>search\<close>: the GET requests handed to the session (URL and query
  parameters), and the page returned or the exception raised.
\<close>

record 'page search_run =
  sent :: "(string \<times> query_params) list"
  outcome :: "pyexc + 'page"

text \<open>
  Lines 57-63. \<^verbatim>\<open>"items" in data\<close> is a key test on a dictionary, a membership test on
  a list or a string, and a \<^verbatim>\<open>TypeError\<close> otherwise; \<^verbatim>\<open>data["items"]\<close> needs a
  dictionary.
\<close>

fun items_of :: "pyval \<Rightarrow> pyexc + pyval list" where
  "items_of (PDict d) =
     (case map_of d ''items'' of None \<Rightarrow> Inr [] | Some v \<Rightarrow> py_iter v)"
| "items_of (PList xs) =
     (if PStr ''items'' \<in> set xs
      then Inl (Exception ''TypeError'' ''list indices must be integers or slices, not str'')
      else Inr [])"
| "items_of (PStr s) =
     (if contains_sub s ''items''
      then Inl (Exception ''TypeError'' ''string indices must be integers, not str'')
      else Inr [])"
| "items_of v = Inl (Exception ''TypeError'' ''argument is not iterable'')"

text \<open>The three \<^verbatim>\<open>item.get\<close> calls of one loop step (lines 60-62).\<close>

definition item_fields :: "pyval \<Rightarrow> pyexc + (pyval \<times> pyval \<times> pyval)" where
  "item_fields item =
     (case py_get item ''title'' (PStr []) of
        Inl e \<Rightarrow> Inl e
      | Inr title \<Rightarrow>
     (case py_get item ''link'' (PStr []) of
        Inl e \<Rightarrow> Inl e
      | Inr link \<Rightarrow>
     (case py_get item ''snippet'' (PStr []) of
        Inl e \<Rightarrow> Inl e
      | Inr snippet \<Rightarrow> Inr (title, link, snippet))))"

fun titles_and_urls :: "pyval list \<Rightarrow> pyexc + (pyval \<times> pyval \<times> pyval) list" where
  "titles_and_urls [] = Inr []"
| "titles_and_urls (item # items) =
     (case item_fields item of
        Inl e \<Rightarrow> Inl e
      | Inr t \<Rightarrow>
          (case titles_and_urls items of
             Inl e \<Rightarrow> Inl e
           | Inr rest \<Rightarrow> Inr (t # rest)))"

text \<open>
  Lines 65-72: the result page. \<open>fmt\<close> is the formatting of a value inside an
  f-string (\<^verbatim>\<open>format(v, "")\<close>), the identity on strings.
\<close>

definition html_page ::
  "(pyval \<Rightarrow> string) \<Rightarrow> string \<Rightarrow> (pyval \<times> pyval \<times> pyval) list \<Rightarrow> string" where
  "html_page fmt query tus =
     [CHR 0x0A] @ ''<html><body>'' @ [CHR 0x0A]
     @ ''<h1>Search Results for: '' @ query @ ''</h1>'' @ [CHR 0x0A]
     @ ''<ul>'' @ [CHR 0x0A]
     @ concat (map (\<lambda>(title, url, summary).
          ''<li><a href='' @ squote (fmt url) @ ''>'' @ fmt title @ ''</a><br>''
          @ fmt summary @ ''</li>'') tus) @ [CHR 0x0A]
     @ ''</ul>'' @ [CHR 0x0A]
     @ ''</body></html>'' @ [CHR 0x0A]"

definition search_url :: string where
  "search_url = ''https://www.googleapis.com/customsearch/v1''"

text \<open>Lines 41-46: the query parameters, with the result count capped at ten.\<close>

definition search_params :: "string \<Rightarrow> string \<Rightarrow> string \<Rightarrow> int \<Rightarrow> query_params" where
  "search_params api_key cx query topn =
     [(''key'', PStr api_key), (''cx'', PStr cx), (''q'', PStr query),
      (''num'', PInt (min topn 10))]"

text \<open>
  \<^verbatim>\<open>GoogleBackend.search\<close> (lines 33-80). \<open>session_get\<close> is the session's GET and
  \<open>process_html\<close> the page builder, called with the page, the URL, the title and
  \<^verbatim>\<open>display_urls\<close>.
\<close>

definition search ::
  "(string \<Rightarrow> query_params \<Rightarrow> pyexc + http_response) \<Rightarrow>
   (string \<Rightarrow> string \<Rightarrow> string \<Rightarrow> bool \<Rightarrow> 'page) \<Rightarrow> (pyval \<Rightarrow> string) \<Rightarrow>
   environ \<Rightarrow> string \<Rightarrow> int \<Rightarrow> 'page search_run" where
  "search session_get process_html fmt env query topn =
     (case get_api_key env of
        Inl e \<Rightarrow> \<lparr> sent = [], outcome = Inl e \<rparr>
      | Inr api_key \<Rightarrow>
     (case get_cx env of
        Inl e \<Rightarrow> \<lparr> sent = [], outcome = Inl e \<rparr>
      | Inr cx \<Rightarrow>
          let params = search_params api_key cx query topn in
          \<lparr> sent = [(search_url, params)],
            outcome =
              (case session_get search_url params of
                 Inl e \<Rightarrow> Inl e
               | Inr resp \<Rightarrow>
                   if resp_status resp \<noteq> 200 then
                     Inl (BackendError (''GoogleBackend error '' @ str_int (resp_status resp)
                                        @ '': '' @ resp_text resp))
                   else
                     (case resp_json resp of
                        Inl e \<Rightarrow> Inl e
                      | Inr data \<Rightarrow>
                          (case items_of data of
                             Inl e \<Rightarrow> Inl e
                           | Inr items \<Rightarrow>
                               (case titles_and_urls items of
                                  Inl e \<Rightarrow> Inl e
                                | Inr tus \<Rightarrow>
                                    Inr (process_html (html_page fmt query tus) [] query True))))) \<rparr>))"

section \<open>The terminal chat client (gpt-oss-chat.py)\<close>

text \<open>
  Printing to the terminal is left out: it changes nothing that the client reads
  again. What remains of \<^verbatim>\<open>ChatClient\<close> is its fields, the request it builds, and
  the conversation history it keeps.
\<close>

subsection \<open>String helpers\<close>

text \<open>
  \<^verbatim>\<open>str.strip()\<close> removes leading and trailing whitespace and \<^verbatim>\<open>str.lower()\<close>
  lowers letters; on byte strings these are the ASCII whitespace characters and the
  letters A to Z.
\<close>

definition is_space :: "char \<Rightarrow> bool" where
  "is_space c = (c = CHR '' '' \<or> (9 \<le> (of_char c :: nat) \<and> (of_char c :: nat) \<le> 13)
                 \<or> (28 \<le> (of_char c :: nat) \<and> (of_char c :: nat) \<le> 31))"

definition strip :: "string \<Rightarrow> string" where
  "strip s = rev (dropWhile is_space (rev (dropWhile is_space s)))"

definition lower_char :: "char \<Rightarrow> char" where
  "lower_char c =
     (if 65 \<le> (of_char c :: nat) \<and> (of_char c :: nat) \<le> 90
      then char_of ((of_char c :: nat) + 32) else c)"

definition lower :: "string \<Rightarrow> string" where
  "lower s = map lower_char s"

text \<open>\<^verbatim>\<open>s.rstrip('/')\<close>.\<close>

definition rstrip_slash :: "string \<Rightarrow> string" where
  "rstrip_slash s = rev (dropWhile (\<lambda>c. c = CHR ''/'') (rev s))"

subsection \<open>The client and its request\<close>

record chat_client =
  api_url :: string
  enable_file_editing :: bool
  enable_web_search :: bool
  max_tokens :: int
  custom_instructions :: "string option"
  conversation_history :: "pyval list"

text \<open>\<^verbatim>\<open>__init__\<close> (lines 85-98).\<close>

definition init_client :: "string \<Rightarrow> bool \<Rightarrow> bool \<Rightarrow> int \<Rightarrow> string option \<Rightarrow> chat_client" where
  "init_client url file_editing web_search tokens instructions =
     \<lparr> api_url = rstrip_slash url,
       enable_file_editing = file_editing,
       enable_web_search = web_search,
       max_tokens = tokens,
       custom_instructions = instructions,
       conversation_history = [] \<rparr>"

text \<open>\<^verbatim>\<open>build_tools_list\<close> (lines 100-110).\<close>

definition build_tools_list :: "chat_client \<Rightarrow> pyval list" where
  "build_tools_list c =
     (if enable_web_search c then [PDict [(''type'', PStr ''web_search'')]] else [])
     @ (if enable_file_editing c then [PDict [(''type'', PStr ''file_editing'')]] else [])"

text \<open>\<^verbatim>\<open>build_instructions\<close> (lines 112-132); \<open>cwd\<close> is \<^verbatim>\<open>os.getcwd()\<close>.\<close>

definition build_instructions :: "string \<Rightarrow> chat_client \<Rightarrow> string" where
  "build_instructions cwd c =
     (let capabilities =
            (if enable_file_editing c then [''edit files''] else [])
            @ (if enable_web_search c then [''search the web''] else [])
      in join [CHR 0x0A]
           ((if truthy_str (custom_instructions c) then [the (custom_instructions c)] else [])
            @ [''You are working in directory: '' @ cwd]
            @ (if capabilities \<noteq> []
               then [''You can '' @ join '' and '' capabilities @ '' to help the user.'']
               else [])))"

text \<open>The user message dictionary of lines 141-145 and 368-372.\<close>

definition user_message_item :: "string \<Rightarrow> pyval" where
  "user_message_item t =
     PDict [(''type'', PStr ''message''), (''role'', PStr ''user''),
            (''content'', PList [PDict [(''type'', PStr ''input_text''), (''text'', PStr t)]])]"

definition build_payload :: "string \<Rightarrow> chat_client \<Rightarrow> string \<Rightarrow> pyval" where
  "build_payload cwd c user_message =
     PDict [(''input'', PList (conversation_history c @ [user_message_item user_message])),
            (''instructions'', PStr (build_instructions cwd c)),
            (''tools'', PList (build_tools_list c)),
            (''max_output_tokens'', PInt (max_tokens c)),
            (''stream'', PBool False),
            (''store'', PBool False)]"

text \<open>\<^verbatim>\<open>response.raise_for_status()\<close>: the 4xx and 5xx codes raise \<^verbatim>\<open>HTTPError\<close>.\<close>

definition raise_for_status :: "http_response \<Rightarrow> pyexc option" where
  "raise_for_status r =
     (if 400 \<le> resp_status r \<and> resp_status r < 600
      then Some (Exception ''HTTPError'' (str_int (resp_status r)))
      else None)"

text \<open>
  \<^verbatim>\<open>send_message\<close> (lines 134-183). \<open>post\<close> is \<^verbatim>\<open>requests.post\<close> on the URL and
  the JSON payload. The four handlers end in \<^verbatim>\<open>except Exception\<close>, so every
  \<^verbatim>\<open>Exception\<close> raised while posting, checking the status or decoding the body
  gives \<^verbatim>\<open>None\<close>; an exception outside that class leaves the method.
\<close>

definition send_message ::
  "(string \<Rightarrow> pyval \<Rightarrow> pyexc + http_response) \<Rightarrow> string \<Rightarrow> chat_client \<Rightarrow> string \<Rightarrow>
   pyexc + pyval" where
  "send_message post cwd c user_message =
     (let caught = (\<lambda>e. if is_Exception e then Inr PNone else Inl e) in
      case post (api_url c @ ''/v1/responses'') (build_payload cwd c user_message) of
        Inl e \<Rightarrow> caught e
      | Inr response \<Rightarrow>
          (case raise_for_status response of
             Some e \<Rightarrow> caught e
           | None \<Rightarrow>
               (case resp_json response of
                  Inl e \<Rightarrow> caught e
                | Inr v \<Rightarrow> Inr v)))"

subsection \<open>Showing a response\<close>

text \<open>The first exception raised while the items are shown one after another.\<close>

fun first_raise :: "(pyval \<Rightarrow> pyexc option) \<Rightarrow> pyval list \<Rightarrow> pyexc option" where
  "first_raise show_item [] = None"
| "first_raise show_item (x # xs) =
     (case show_item x of Some e \<Rightarrow> Some e | None \<Rightarrow> first_raise show_item xs)"

text \<open>
  \<^verbatim>\<open>display_response\<close> (lines 185-292). \<open>show_item\<close> is the body of the loop over
  the output items (lines 194-289), which prints and may raise on an item of an
  unexpected shape. The history is extended after the loop, with the same output.
\<close>

definition display_response ::
  "(pyval \<Rightarrow> pyexc option) \<Rightarrow> chat_client \<Rightarrow> pyval \<Rightarrow> pyexc + chat_client" where
  "display_response show_item c response =
     (if \<not> py_truthy response then Inr c
      else
        (case py_get response ''output'' (PList []) of
           Inl e \<Rightarrow> Inl e
         | Inr output \<Rightarrow>
             (case py_iter output of
                Inl e \<Rightarrow> Inl e
              | Inr items \<Rightarrow>
                  (case first_raise show_item items of
                     Some e \<Rightarrow> Inl e
                   | None \<Rightarrow>
                       Inr (c\<lparr> conversation_history := conversation_history c @ items \<rparr>)))))"

subsection \<open>The chat loop\<close>

text \<open>
  What \<^verbatim>\<open>input()\<close> gives in one iteration: a line, a keyboard interrupt, or the
  end of the input. After an iteration the loop goes on, ends, or an exception that
  no handler of \<^verbatim>\<open>run\<close> catches leaves it.
\<close>

datatype stdin_event = Line string | CtrlC | EndOfInput

datatype loop_ctl = Continue | Break | Crashed pyexc

text \<open>\<^verbatim>\<open>xs.pop()\<close>: the list without its last element.\<close>

fun list_pop :: "'a list \<Rightarrow> pyexc + 'a list" where
  "list_pop [] = Inl (Exception ''IndexError'' ''pop from empty list'')"
| "list_pop (x # xs) = Inr (butlast (x # xs))"

text \<open>
  The handlers of the loop body (lines 390-397): \<^verbatim>\<open>KeyboardInterrupt\<close> continues,
  \<^verbatim>\<open>EOFError\<close> ends the loop, anything else propagates.
\<close>

fun run_handlers :: "pyexc \<Rightarrow> loop_ctl" where
  "run_handlers (BaseException c s) =
     (if c = ''KeyboardInterrupt'' then Continue else Crashed (BaseException c s))"
| "run_handlers (Exception c s) =
     (if c = ''EOFError'' then Break else Crashed (Exception c s))"

text \<open>
  One iteration of the loop of \<^verbatim>\<open>run\<close> (lines 324-397). The state is the client
  and the number of requests sent so far; \<open>post\<close> may answer the \<open>n\<close>-th request in
  its own way.
\<close>

definition run_turn ::
  "(nat \<Rightarrow> string \<Rightarrow> pyval \<Rightarrow> pyexc + http_response) \<Rightarrow> (pyval \<Rightarrow> pyexc option) \<Rightarrow> string \<Rightarrow>
   chat_client \<times> nat \<Rightarrow> stdin_event \<Rightarrow> (chat_client \<times> nat) \<times> loop_ctl" where
  "run_turn post show_item cwd st ev =
     (case ev of
        CtrlC \<Rightarrow> (st, Continue)
      | EndOfInput \<Rightarrow> (st, Break)
      | Line raw \<Rightarrow>
          let c = fst st; n = snd st; user_input = strip raw in
          if user_input = [] then (st, Continue)
          else if startswith user_input ''/'' then
            (let command = lower user_input in
             if command = ''/exit'' \<or> command = ''/quit'' then (st, Break)
             else if command = ''/clear'' then ((c\<lparr> conversation_history := [] \<rparr>, n), Continue)
             else (st, Continue))
          else
            (let c1 = c\<lparr> conversation_history :=
                          conversation_history c @ [user_message_item user_input] \<rparr>
             in case send_message (post n) cwd c1 user_input of
                  Inl e \<Rightarrow> ((c1, Suc n), run_handlers e)
                | Inr response \<Rightarrow>
                    if py_truthy response then
                      (case display_response show_item c1 response of
                         Inl e \<Rightarrow> ((c1, Suc n), run_handlers e)
                       | Inr c2 \<Rightarrow> ((c2, Suc n), Continue))
                    else
                      (case list_pop (conversation_history c1) of
                         Inl e \<Rightarrow> ((c1, Suc n), run_handlers e)
                       | Inr h \<Rightarrow> ((c1\<lparr> conversation_history := h \<rparr>, Suc n), Continue))))"

text \<open>
  The loop over what is typed; at the end of the input \<^verbatim>\<open>input()\<close> raises
  \<^verbatim>\<open>EOFError\<close> and the loop ends.
\<close>

fun run_loop ::
  "(nat \<Rightarrow> string \<Rightarrow> pyval \<Rightarrow> pyexc + http_response) \<Rightarrow> (pyval \<Rightarrow> pyexc option) \<Rightarrow> string \<Rightarrow>
   chat_client \<times> nat \<Rightarrow> stdin_event list \<Rightarrow> (chat_client \<times> nat) \<times> loop_ctl" where
  "run_loop post show_item cwd st [] = (st, Break)"
| "run_loop post show_item cwd st (ev # evs) =
     (case run_turn post show_item cwd st ev of
        (st', Continue) \<Rightarrow> run_loop post show_item cwd st' evs
      | (st', ctl) \<Rightarrow> (st', ctl))"

section \<open>The patch application engine\<close>

text \<open>
  The adapter calls \<^verbatim>\<open>apply_patch.apply_patch\<close>, a module that is not among the
  sources. The definitions of this section are therefore modelled from the
  specification of the engine (its data model, the Hunk Matcher and the Apply
  Engine); each says so. The working directory is an in-memory store from resolved
  paths to file contents, in which a write cannot fail, so the commit phase has no
  \<^verbatim>\<open>IoError\<close> and no rollback.
\<close>

subsection \<open>Data model\<close>

text \<open>
  Modelled from the spec: \<^verbatim>\<open>Hunk\<close>, \<^verbatim>\<open>FileOperation\<close> and \<^verbatim>\<open>Patch\<close> of the data
  model; the engine's own declarations are missing.
\<close>

record hunk =
  context_before :: "string list"
  removed_lines :: "string list"
  added_lines :: "string list"
  context_after :: "string list"

datatype file_operation =
    AddFile string string
  | UpdateFile string "hunk list"
  | DeleteFile string

type_synonym patch = "file_operation list"


text \<open>
  Modelled from the spec: the error kinds that validation reports
  (\<^verbatim>\<open>PreconditionError\<close>, \<^verbatim>\<open>ContextNotFound\<close>, \<^verbatim>\<open>AmbiguousMatch\<close>, and the mark
  "aborted: prior validation error"), \<^verbatim>\<open>ApplyResult\<close> and \<^verbatim>\<open>ApplyOutcome\<close>.
\<close>

datatype precondition =
    AddOnExistingFile
  | UpdateOnMissingFile
  | DeleteOnMissingFile
  | PathEscapesRoot

datatype reason =
    PreconditionError precondition string
  | ContextNotFound nat string
  | AmbiguousMatch nat "nat list"
  | Aborted




subsection \<open>Paths\<close>

text \<open>\<^verbatim>\<open>s.split(c)\<close>: the pieces of \<open>s\<close> between the occurrences of \<open>c\<close>.\<close>

fun split_on :: "char \<Rightarrow> string \<Rightarrow> string list" where
  "split_on c [] = [[]]"
| "split_on c (x # xs) =
     (if x = c then [] # split_on c xs
      else (case split_on c xs of w # ws \<Rightarrow> (x # w) # ws | [] \<Rightarrow> [[x]]))"






subsection \<open>Hunk Matcher\<close>

text \<open>
  Modelled from the spec: step 1 of the matcher, "probe sequence = context\_before +
  removed\_lines". The lines of \<^verbatim>\<open>context_after\<close> are carried by the hunk and take no
  part in steps 1 to 6.
\<close>

definition probe :: "hunk \<Rightarrow> string list" where
  "probe h = context_before h @ removed_lines h"

text \<open>
  Modelled from the spec: the normalized comparison of step 3, "trailing-whitespace
  and line-ending differences ignored".
\<close>

definition normalize_line :: "string \<Rightarrow> string" where
  "normalize_line l = rev (dropWhile is_space (rev l))"

text \<open>
  Modelled from the spec: the candidate locations of one pass, the offsets from the
  search start onward at which the file holds a contiguous run equal to the probe
  under the pass's comparison.
\<close>

definition occurs_at :: "(string \<Rightarrow> string) \<Rightarrow> string list \<Rightarrow> string list \<Rightarrow> nat \<Rightarrow> bool" where
  "occurs_at norm file_lines p i = (map norm (take (length p) (drop i file_lines)) = map norm p)"

definition candidates :: "(string \<Rightarrow> string) \<Rightarrow> string list \<Rightarrow> string list \<Rightarrow> nat \<Rightarrow> nat list" where
  "candidates norm file_lines p start =
     filter (occurs_at norm file_lines p) [start ..< Suc (length file_lines)]"

text \<open>
  Modelled from the spec: \<^verbatim>\<open>locate(file_lines, hunk, search_start_offset)\<close>, steps 2
  to 5. The exact pass decides when it finds a candidate; the normalized pass runs
  only when the exact pass finds none; more than one candidate in the pass that
  decides is \<^verbatim>\<open>AmbiguousMatch\<close>, none in both is \<^verbatim>\<open>ContextNotFound\<close>. The range
  returned is the probe's, from its first line to just after its last.
\<close>

definition locate :: "string list \<Rightarrow> hunk \<Rightarrow> nat \<Rightarrow> nat \<Rightarrow> string \<Rightarrow> reason + (nat \<times> nat)" where
  "locate file_lines h search_start_offset idx path =
     (case candidates id file_lines (probe h) search_start_offset of
        [i] \<Rightarrow> Inr (i, i + length (probe h))
      | i # j # others \<Rightarrow> Inl (AmbiguousMatch idx (i # j # others))
      | [] \<Rightarrow>
          (case candidates normalize_line file_lines (probe h) search_start_offset of
             [] \<Rightarrow> Inl (ContextNotFound idx path)
           | [i] \<Rightarrow> Inr (i, i + length (probe h))
           | i # j # others \<Rightarrow> Inl (AmbiguousMatch idx (i # j # others))))"

text \<open>
  Modelled from the spec: step 6, the hunks of one file located in the order given,
  the search for each starting at the end of the previous hunk's matched range.
\<close>

fun locate_all :: "string \<Rightarrow> string list \<Rightarrow> nat \<Rightarrow> nat \<Rightarrow> hunk list \<Rightarrow> reason + (nat \<times> nat) list" where
  "locate_all path file_lines start idx [] = Inr []"
| "locate_all path file_lines start idx (h # hs) =
     (case locate file_lines h start idx path of
        Inl r \<Rightarrow> Inl r
      | Inr (s, e) \<Rightarrow>
          (case locate_all path file_lines e (Suc idx) hs of
             Inl r \<Rightarrow> Inl r
           | Inr ranges \<Rightarrow> Inr ((s, e) # ranges)))"

text \<open>
  Modelled from the spec: "removed\_lines must appear immediately following
  context\_before; added\_lines replace them". The file is copied up to the end of each
  hunk's context, the added lines are written, and the copy resumes after the
  matched range.
\<close>

fun splice :: "string list \<Rightarrow> nat \<Rightarrow> (nat \<times> nat) list \<Rightarrow> hunk list \<Rightarrow> string list" where
  "splice file_lines start ((s, e) # ranges) (h # hs) =
     take (s + length (context_before h) - start) (drop start file_lines)
     @ added_lines h @ splice file_lines e ranges hs"
| "splice file_lines start ranges hs = drop start file_lines"



definition rewrite :: "string \<Rightarrow> string list \<Rightarrow> hunk list \<Rightarrow> reason + string list" where
  "rewrite path file_lines hs =
     (case locate_all path file_lines 0 0 hs of
        Inl r \<Rightarrow> Inl r
      | Inr ranges \<Rightarrow> Inr (splice file_lines 0 ranges hs))"

subsection \<open>Apply Engine\<close>

text \<open>
  Modelled from the spec: a file's content is text, and the matcher works on its
  lines. The content is split at every newline and joined back with newlines, so the
  lines that no hunk touches keep their bytes.
\<close>

definition split_lines :: "string \<Rightarrow> string list" where
  "split_lines s = split_on (CHR 0x0A) s"













section \<open>Concrete inputs\<close>

text \<open>
  Inputs on which the properties below are exercised. For the adapter: the default
  patch of the tool's configuration (line 52), the same patch inside a single-key JSON
  envelope, that envelope after a space, a message carrying a text, and stand-ins for
  the collaborators: a decoder that knows the envelope (and, as \<^verbatim>\<open>json.loads\<close>
  does, skips the whitespace around it), a decoder that fails, an engine that accepts
  and one that rejects. For the chat loop: a network on which every request fails.
\<close>

definition default_patch :: string where
  "default_patch = ''*** Begin Patch\<newline>*** End Patch\<newline>''"

definition enveloped_default_patch :: string where
  \<open>enveloped_default_patch =
     ''{"input": "*** Begin Patch'' @ [CHR 0x5C] @ ''n*** End Patch'' @ [CHR 0x5C] @ ''n"}''\<close>

definition padded_envelope :: string where
  "padded_envelope = CHR '' '' # enveloped_default_patch"

definition text_message :: "string \<Rightarrow> string option \<Rightarrow> message" where
  "text_message t channel =
     \<lparr> msg_author = \<lparr> author_role = ASSISTANT, author_name = None \<rparr>,
       msg_content = [TextContent t],
       msg_recipient = Some ''apply_patch'',
       msg_channel = channel \<rparr>"

definition envelope_json_loads :: "string \<Rightarrow> pyexc + pyval" where
  "envelope_json_loads t =
     (if strip t = enveloped_default_patch
      then Inr (PDict [(''input'', PStr default_patch)])
      else Inl (Exception ''JSONDecodeError'' ''Expecting value''))"


definition accepting_engine :: "pyval \<Rightarrow> pyexc + string" where
  "accepting_engine v = Inr ''Done!''"


definition offline :: "nat \<Rightarrow> string \<Rightarrow> pyval \<Rightarrow> pyexc + http_response" where
  "offline n url payload = Inl (Exception ''ConnectionError'' ''connection refused'')"









definition b_hunk :: hunk where
  "b_hunk = \<lparr> context_before = [''a''], removed_lines = [''b''], added_lines = [''B''],
              context_after = [] \<rparr>"

definition d_hunk :: hunk where
  "d_hunk = \<lparr> context_before = [''c''], removed_lines = [''d''], added_lines = [''D''],
              context_after = [] \<rparr>"

definition abcd_lines :: "string list" where
  "abcd_lines = split_lines ''a\<newline>b\<newline>c\<newline>d\<newline>''"

chapter \<open>Properties\<close>

section \<open>The adapter\<close>

lemma apply_stage_calls: "engine_calls (apply_stage engine v ch) = [v]"
  by (simp add: apply_stage_def split: sum.splits)

lemma json_error_calls: "engine_calls (json_error e ch) = []"
  by (simp add: json_error_def yield_only_def raise_only_def)

lemma apply_stage_summary:
  "engine v = Inr summary \<Longrightarrow>
   yielded (apply_stage engine v ch) = [priv_make_response summary ch]
   \<and> raised (apply_stage engine v ch) = None"
  by (simp add: apply_stage_def)




lemma response_content: "msg_content (priv_make_response s ch) = [TextContent s]"
  by (simp add: priv_make_response_def make_response_def)



text \<open>
  C3, as amended. When the text of the message begins with an opening brace and
  decodes to a JSON object with exactly one key whose value is the patch text, the
  engine is called once, with that patch text and not with the envelope; when the
  text does not begin with a brace, as raw patch text (which begins with its header
  line) does not, the engine is called once with the text unchanged.
\<close>

theorem envelope_unwrapped:
  assumes "first_text (msg_content message) = Inr t"
  shows "(startswith t ''{'' \<and> json_loads t = Inr (PDict [(k, PStr p)])
            \<longrightarrow> engine_calls (priv_process json_loads engine message) = [PStr p])
         \<and> (\<not> startswith t ''{''
            \<longrightarrow> engine_calls (priv_process json_loads engine message) = [PStr t])"
  using assms by (simp add: priv_process_def Let_def apply_stage_calls)

theorem envelope_unwrapped_witness:
  "engine_calls (priv_process envelope_json_loads accepting_engine
                   (text_message enveloped_default_patch None)) = [PStr default_patch]
   \<and> engine_calls (priv_process envelope_json_loads accepting_engine
                   (text_message default_patch None)) = [PStr default_patch]"
proof -
  have a: "first_text (msg_content (text_message enveloped_default_patch None))
             = Inr enveloped_default_patch"
    and b: "first_text (msg_content (text_message default_patch None)) = Inr default_patch"
    by (simp_all add: text_message_def)
  have c: "startswith enveloped_default_patch ''{''"
    and d: "\<not> startswith default_patch ''{''"
    by (simp_all add: startswith_def enveloped_default_patch_def default_patch_def)
  have s: "strip enveloped_default_patch = enveloped_default_patch"
    by (simp add: enveloped_default_patch_def strip_def is_space_def)
  have e: "envelope_json_loads enveloped_default_patch = Inr (PDict [(''input'', PStr default_patch)])"
    by (simp add: envelope_json_loads_def s)
  from envelope_unwrapped [OF a, where json_loads = envelope_json_loads and k = "''input''"
      and p = default_patch and engine = accepting_engine]
    envelope_unwrapped [OF b, where json_loads = envelope_json_loads and k = "''input''"
      and p = default_patch and engine = accepting_engine] c d e
  show ?thesis by simp
qed

text \<open>
  C3 as stated fails: the guard of line 91 looks at the first character only. An
  envelope that follows a space still decodes to the one-key object, as
  \<^verbatim>\<open>json.loads\<close> skips the whitespace around a document, but it is not unwrapped:
  the engine is called with the enveloped form.
\<close>

theorem padded_envelope_not_unwrapped:
  "envelope_json_loads padded_envelope = Inr (PDict [(''input'', PStr default_patch)])
   \<and> first_text (msg_content (text_message padded_envelope None)) = Inr padded_envelope
   \<and> engine_calls (priv_process envelope_json_loads accepting_engine
                     (text_message padded_envelope None)) = [PStr padded_envelope]
   \<and> PStr padded_envelope \<noteq> PStr default_patch"
proof -
  have s: "strip padded_envelope = enveloped_default_patch"
    by (simp add: padded_envelope_def enveloped_default_patch_def strip_def is_space_def)
  have a: "envelope_json_loads padded_envelope = Inr (PDict [(''input'', PStr default_patch)])"
    by (simp add: envelope_json_loads_def s)
  have b: "first_text (msg_content (text_message padded_envelope None)) = Inr padded_envelope"
    by (simp add: text_message_def)
  have n: "\<not> startswith padded_envelope ''{''"
    by (simp add: startswith_def padded_envelope_def)
  have c: "engine_calls (priv_process envelope_json_loads accepting_engine
                     (text_message padded_envelope None)) = [PStr padded_envelope]"
    using n by (simp add: priv_process_def text_message_def apply_stage_calls)
  have d: "PStr padded_envelope \<noteq> PStr default_patch"
    by (simp add: padded_envelope_def default_patch_def)
  from a b c d show ?thesis by simp
qed

text \<open>
  C4. Whenever the engine is called on a patch text and returns a summary without
  raising, the run yields exactly one response, and the text content of that response
  is the summary itself.
\<close>

theorem summary_forwarded_verbatim:
  assumes "engine_calls (priv_process json_loads engine message) = [v]"
    and "engine v = Inr summary"
  shows "yielded (priv_process json_loads engine message)
           = [priv_make_response summary (msg_channel message)]
         \<and> msg_content (priv_make_response summary (msg_channel message)) = [TextContent summary]
         \<and> raised (priv_process json_loads engine message) = None"
  using assms
  by (auto simp: priv_process_def Let_def raise_only_def json_error_calls apply_stage_calls
        apply_stage_summary response_content
      split: sum.splits if_splits prod.splits)

theorem summary_forwarded_verbatim_witness:
  "map msg_content
     (yielded (priv_process (\<lambda>t. Inl (Exception ''JSONDecodeError'' []))
                 (\<lambda>v. Inr ''Done!'') (text_message default_patch (Some ''commentary''))))
   = [[TextContent ''Done!'']]"
proof -
  have a: "engine_calls (priv_process (\<lambda>t. Inl (Exception ''JSONDecodeError'' []))
                 (\<lambda>v. Inr ''Done!'') (text_message default_patch (Some ''commentary'')))
           = [PStr default_patch]"
    by (simp add: priv_process_def text_message_def startswith_def default_patch_def
        apply_stage_calls)
  have b: "(\<lambda>v. Inr ''Done!'' :: pyexc + string) (PStr default_patch) = Inr ''Done!''"
    by simp
  from summary_forwarded_verbatim [OF a b] show ?thesis by simp
qed

section \<open>The search backend\<close>

text \<open>
  C9. Every request that \<^verbatim>\<open>GoogleBackend.search\<close> hands to the session carries the
  parameter \<^verbatim>\<open>num\<close> equal to \<^verbatim>\<open>min(topn, 10)\<close>, whatever the query and \<^verbatim>\<open>topn\<close> are,
  so the count asked for never exceeds ten.
\<close>

theorem search_num_capped:
  assumes "(url, params) \<in> set (sent (search session_get process_html fmt env query topn))"
  shows "map_of params ''num'' = Some (PInt (min topn 10)) \<and> min topn 10 \<le> 10"
  using assms
  by (auto simp: search_def search_params_def Let_def split: sum.splits)

theorem search_num_capped_witness:
  "(search_url, search_params ''k'' ''c'' ''q'' 25)
     \<in> set (sent (search (\<lambda>u p. Inl (Exception ''ClientError'' [])) (\<lambda>h u t d. h) (\<lambda>v. [])
                     [''GOOGLE_KEY'' \<mapsto> ''k'', ''GOOGLE_CX'' \<mapsto> ''c''] ''q'' 25))
   \<and> map_of (search_params ''k'' ''c'' ''q'' 25) ''num'' = Some (PInt 10)"
proof -
  have mem: "(search_url, search_params ''k'' ''c'' ''q'' 25)
     \<in> set (sent (search (\<lambda>u p. Inl (Exception ''ClientError'' [])) (\<lambda>h u t d. h) (\<lambda>v. [])
                     [''GOOGLE_KEY'' \<mapsto> ''k'', ''GOOGLE_CX'' \<mapsto> ''c''] ''q'' 25))"
    by (simp add: search_def get_api_key_def get_cx_def Let_def)
  from search_num_capped [OF mem] show ?thesis using mem by simp
qed

section \<open>The chat loop\<close>

lemma list_pop_snoc: "list_pop (xs @ [x]) = Inr xs"
  by (cases xs) (simp_all add: butlast_append)

text \<open>
  The failures of a request end in \<^verbatim>\<open>None\<close>: an \<^verbatim>\<open>Exception\<close> raised by the post
  (connection error, timeout, any other), and a 4xx or 5xx status.
\<close>

lemma send_message_failure:
  assumes "post (api_url c @ ''/v1/responses'') (build_payload cwd c user_message) = Inl e"
    and "is_Exception e"
  shows "send_message post cwd c user_message = Inr PNone"
  using assms by (simp add: send_message_def)

lemma send_message_http_error:
  assumes "post (api_url c @ ''/v1/responses'') (build_payload cwd c user_message) = Inr r"
    and "400 \<le> resp_status r" and "resp_status r < 600"
  shows "send_message post cwd c user_message = Inr PNone"
  using assms by (simp add: send_message_def raise_for_status_def)

text \<open>
  C10. In an iteration of the chat loop that sends a message (the line typed is
  neither blank nor a command), if \<^verbatim>\<open>send_message\<close> returns \<^verbatim>\<open>None\<close> then the user
  message appended before the request is removed again: after the iteration the
  conversation history, and the whole client, is what it was before, and the loop
  continues.
\<close>

theorem failed_turn_restores_history:
  assumes "strip raw \<noteq> []"
    and "\<not> startswith (strip raw) ''/''"
    and "send_message (post n) cwd
           (c\<lparr> conversation_history := conversation_history c @ [user_message_item (strip raw)] \<rparr>)
           (strip raw) = Inr PNone"
  shows "run_turn post show_item cwd (c, n) (Line raw) = ((c, Suc n), Continue)
         \<and> conversation_history (fst (fst (run_turn post show_item cwd (c, n) (Line raw))))
           = conversation_history c"
  using assms by (simp add: run_turn_def Let_def list_pop_snoc)

theorem failed_turn_restores_history_witness:
  "conversation_history
     (fst (fst (run_turn offline (\<lambda>item. None) ''/home/user''
                  (init_client ''http://localhost:8000/'' True True 4096 None, 0)
                  (Line '' hello ''))))
   = conversation_history (init_client ''http://localhost:8000/'' True True 4096 None)"
proof -
  have s: "strip '' hello '' = ''hello''"
    by (simp add: strip_def is_space_def)
  have a: "strip '' hello '' \<noteq> []" and b: "\<not> startswith (strip '' hello '') ''/''"
    by (simp_all add: s startswith_def)
  have c: "send_message (offline 0) ''/home/user''
           ((init_client ''http://localhost:8000/'' True True 4096 None)
              \<lparr> conversation_history :=
                   conversation_history (init_client ''http://localhost:8000/'' True True 4096 None)
                   @ [user_message_item (strip '' hello '')] \<rparr>)
           (strip '' hello '') = Inr PNone"
    by (simp add: send_message_def offline_def)
  from failed_turn_restores_history
    [where post = offline and n = 0 and show_item = "\<lambda>item. None", OF a b c]
  show ?thesis by simp
qed

section \<open>The patch application engine\<close>






































text \<open>Given in the other order, the second hunk is searched after the first and is not found.\<close>

lemma backward_hunk_not_found:
  "rewrite ''a.txt'' abcd_lines [d_hunk, b_hunk] = Inl (ContextNotFound 1 ''a.txt'')"
  by code_simp

end
